theory Spec2Isabelle
  imports Complex_Main
begin

section \<open>JavaScript values\<close>

text \<open>
  The handler of \<^verbatim>\<open>api/generate-summary.js\<close> moves JSON data between a caller and
  the upstream text-generation service. A value is what \<^verbatim>\<open>JSON.parse\<close> can return,
  together with \<^verbatim>\<open>undefined\<close>, which a read of a missing property yields. A Number
  is taken by its value; the handler only ever tests one for being zero. An object is the
  list of its own properties in insertion order, a read taking the entry of the key.
\<close>

datatype jsval =
    JUndefined
  | JNull
  | JBool bool
  | JNum real
  | JStr string
  | JArr "jsval list"
  | JObj "(string \<times> jsval) list"

text \<open>\<^verbatim>\<open>null\<close> and \<^verbatim>\<open>undefined\<close>: the values a property read throws on, and the
  values at which \<^verbatim>\<open>?.\<close> stops.\<close>

fun nullish :: "jsval \<Rightarrow> bool" where
  "nullish JUndefined = True"
| "nullish JNull = True"
| "nullish _ = False"

text \<open>ToBoolean, as used by \<^verbatim>\<open>if (generatedText)\<close>.\<close>

fun truthy :: "jsval \<Rightarrow> bool" where
  "truthy JUndefined = False"
| "truthy JNull = False"
| "truthy (JBool b) = b"
| "truthy (JNum n) = (n \<noteq> 0)"
| "truthy (JStr s) = (s \<noteq> [])"
| "truthy (JArr xs) = True"
| "truthy (JObj kvs) = True"

text \<open>
  \<^verbatim>\<open>v.k\<close> on a value that is neither \<^verbatim>\<open>null\<close> nor \<^verbatim>\<open>undefined\<close>, for the identifiers
  the handler reads (\<^verbatim>\<open>prompt\<close>, \<^verbatim>\<open>systemInstruction\<close>, \<^verbatim>\<open>model\<close>, \<^verbatim>\<open>candidates\<close>,
  \<^verbatim>\<open>content\<close>, \<^verbatim>\<open>parts\<close>, \<^verbatim>\<open>text\<close>): none of them is a built-in member of an array,
  a string, a number or a boolean, so only an object can hold one.
\<close>

fun read_prop :: "jsval \<Rightarrow> string \<Rightarrow> jsval" where
  "read_prop (JObj kvs) k = (case map_of kvs k of Some v \<Rightarrow> v | None \<Rightarrow> JUndefined)"
| "read_prop _ k = JUndefined"

text \<open>
  \<^verbatim>\<open>v[0]\<close> on a value that is neither \<^verbatim>\<open>null\<close> nor \<^verbatim>\<open>undefined\<close>: the first element
  of an array, the first character of a string, the property \<^verbatim>\<open>"0"\<close> of an object.
\<close>

fun index0 :: "jsval \<Rightarrow> jsval" where
  "index0 (JArr (x # xs)) = x"
| "index0 (JStr (c # cs)) = JStr [c]"
| "index0 (JObj kvs) = (case map_of kvs ''0'' of Some v \<Rightarrow> v | None \<Rightarrow> JUndefined)"
| "index0 _ = JUndefined"

text \<open>Optional chaining: \<^verbatim>\<open>v?.k\<close> and \<^verbatim>\<open>v?.[0]\<close>.\<close>

definition opt_prop :: "jsval \<Rightarrow> string \<Rightarrow> jsval" where
  "opt_prop v k = (if nullish v then JUndefined else read_prop v k)"

definition opt_index0 :: "jsval \<Rightarrow> jsval" where
  "opt_index0 v = (if nullish v then JUndefined else index0 v)"

section \<open>Exceptions\<close>

text \<open>
  An exception is an \<^verbatim>\<open>Error\<close> object; the handler reads only its \<^verbatim>\<open>message\<close>.
  The engine itself raises a TypeError in two places: when \<^verbatim>\<open>request.body\<close> is
  destructured and when \<^verbatim>\<open>candidates\<close> is read, each time because the value is
  \<^verbatim>\<open>null\<close> or \<^verbatim>\<open>undefined\<close>. The wording of that message belongs to the engine, not
  to this repository, so the platform supplies it.
\<close>

datatype exn = Error (message: string)

datatype type_error =
    CannotDestructure jsval
  | CannotRead jsval string

section \<open>The handler's surroundings\<close>

text \<open>The second argument of \<^verbatim>\<open>fetch\<close>, with the URL.\<close>

record fetch_request =
  fetch_url :: string
  fetch_method :: string
  fetch_headers :: "(string \<times> string) list"
  fetch_body :: jsval

text \<open>
  \<open>fetch_body\<close> is the value handed to \<^verbatim>\<open>JSON.stringify\<close>; the text on the wire is
  a function of it.

  What \<^verbatim>\<open>fetch\<close> resolves to: the status, and what \<^verbatim>\<open>.json()\<close> gives, the parsed
  body or the rejection of a body that is not JSON.
\<close>

record api_response =
  status :: nat
  json :: "exn + jsval"

text \<open>\<^verbatim>\<open>apiResponse.ok\<close>: the status is in the success range.\<close>

definition ok :: "api_response \<Rightarrow> bool" where
  "ok r = (200 \<le> status r \<and> status r \<le> 299)"

text \<open>
  \<^verbatim>\<open>process.env.GEMINI_API_KEY\<close> (\<open>None\<close> when the variable is not set), the upstream
  behind \<^verbatim>\<open>fetch\<close> (\<open>Inl\<close> a rejected promise), and the engine's TypeError wording.
\<close>

record platform =
  GEMINI_API_KEY :: "string option"
  fetch :: "fetch_request \<Rightarrow> exn + api_response"
  type_error_message :: "type_error \<Rightarrow> string"

text \<open>The inbound request: \<^verbatim>\<open>request.method\<close> and \<^verbatim>\<open>request.body\<close>, the body as the
  hosting platform parsed it (\<^verbatim>\<open>undefined\<close> or \<^verbatim>\<open>null\<close> when none was sent).\<close>

record request =
  http_method :: string
  body :: jsval

text \<open>\<^verbatim>\<open>response.status(n).json(v)\<close>.\<close>

record sent =
  sent_status :: nat
  sent_json :: jsval

definition respond :: "nat \<Rightarrow> jsval \<Rightarrow> sent" where
  "respond n v = \<lparr>sent_status = n, sent_json = v\<rparr>"

text \<open>One invocation: the response sent and the outbound calls attempted, in order.\<close>

record outcome =
  response :: sent
  calls :: "fetch_request list"

section \<open>The handler\<close>

definition GEMINI_API_URL :: string where
  "GEMINI_API_URL =
     ''https://generativelanguage.googleapis.com/v1beta/models/gemini-2.5-flash-preview-05-20:generateContent''"

text \<open>Decimal digits of a number, as a template literal prints \<^verbatim>\<open>apiResponse.status\<close>.\<close>

definition digit :: "nat \<Rightarrow> char" where
  "digit d = ''0123456789'' ! d"

function string_of_nat :: "nat \<Rightarrow> string" where
  "string_of_nat n =
     (if n < 10 then [digit n] else string_of_nat (n div 10) @ [digit (n mod 10)])"
  by pat_completeness auto
termination
  by (relation "measure id") auto

declare string_of_nat.simps [simp del]

text \<open>\<^verbatim>\<open>const { prompt, systemInstruction, model } = request.body\<close>.\<close>

definition destructure :: "platform \<Rightarrow> jsval \<Rightarrow> exn + (jsval \<times> jsval \<times> jsval)" where
  "destructure p b =
     (if nullish b then Inl (Error (type_error_message p (CannotDestructure b)))
      else Inr (read_prop b ''prompt'', read_prop b ''systemInstruction'', read_prop b ''model''))"

definition payload :: "jsval \<Rightarrow> jsval \<Rightarrow> jsval" where
  "payload prompt systemInstruction =
     JObj [(''contents'', JArr [JObj [(''parts'', JArr [JObj [(''text'', prompt)]])]]),
           (''systemInstruction'', JObj [(''parts'', JArr [JObj [(''text'', systemInstruction)]])])]"

text \<open>\<^verbatim>\<open>apiResult.candidates?.[0]?.content?.parts?.[0]?.text\<close>: the first read is a
  plain one.\<close>

definition generatedText :: "platform \<Rightarrow> jsval \<Rightarrow> exn + jsval" where
  "generatedText p apiResult =
     (if nullish apiResult
      then Inl (Error (type_error_message p (CannotRead apiResult ''candidates'')))
      else Inr (opt_prop (opt_index0 (opt_prop (opt_prop (opt_index0
                  (read_prop apiResult ''candidates'')) ''content'') ''parts'')) ''text''))"

text \<open>The body of \<^verbatim>\<open>try\<close>: the calls attempted, and the response sent or the exception
  thrown.\<close>

definition try_block :: "platform \<Rightarrow> request \<Rightarrow> fetch_request list \<times> (exn + sent)" where
  "try_block p request =
     (case GEMINI_API_KEY p of
        None \<Rightarrow>
          ([], Inr (respond 500 (JObj [(''error'', JStr
             ''Server configuration error: GEMINI_API_KEY environment variable is missing.'')])))
      | Some key \<Rightarrow>
          if key = [] then
            ([], Inr (respond 500 (JObj [(''error'', JStr
               ''Server configuration error: GEMINI_API_KEY environment variable is missing.'')])))
          else
            (case destructure p (body request) of
               Inl e \<Rightarrow> ([], Inl e)
             | Inr (prompt, systemInstruction, model) \<Rightarrow>
                 let call = \<lparr>fetch_url = GEMINI_API_URL @ ''?key='' @ key,
                             fetch_method = ''POST'',
                             fetch_headers = [(''Content-Type'', ''application/json'')],
                             fetch_body = payload prompt systemInstruction\<rparr>
                 in
                 (case fetch p call of
                    Inl e \<Rightarrow> ([call], Inl e)
                  | Inr apiResponse \<Rightarrow>
                      (case json apiResponse of
                         Inl e \<Rightarrow> ([call], Inl e)
                       | Inr apiResult \<Rightarrow>
                           if ok apiResponse then
                             (case generatedText p apiResult of
                                Inl e \<Rightarrow> ([call], Inl e)
                              | Inr text \<Rightarrow>
                                  if truthy text then
                                    ([call], Inr (respond 200 (JObj [(''summary'', text)])))
                                  else
                                    ([call], Inr (respond 500 (JObj [(''error'', JStr
                                       ''Gemini API returned an empty or invalid response.'')]))))
                           else
                             ([call], Inr (respond (status apiResponse)
                                (JObj [(''error'', JStr (''Gemini API call failed with status ''
                                          @ string_of_nat (status apiResponse))),
                                       (''details'', apiResult)])))))))"

definition handler :: "platform \<Rightarrow> request \<Rightarrow> outcome" where
  "handler p request =
     (if http_method request \<noteq> ''POST'' then
        \<lparr>response = respond 405 (JObj [(''error'', JStr
             ''Method Not Allowed. This endpoint only accepts POST requests.'')]),
         calls = []\<rparr>
      else
        (case try_block p request of
           (cs, Inr r) \<Rightarrow> \<lparr>response = r, calls = cs\<rparr>
         | (cs, Inl error) \<Rightarrow>
             \<lparr>response = respond 500 (JObj [(''error'', JStr
                  ''Internal Server Error during proxy processing.''),
                  (''details'', JStr (message error))]),
              calls = cs\<rparr>))"

section \<open>The levels of the extraction path\<close>

text \<open>
  The values the chain of line 41 passes through, in order: \<^verbatim>\<open>candidates\<close>, the first
  candidate, its \<^verbatim>\<open>content\<close>, the \<^verbatim>\<open>parts\<close>, the first part and its \<^verbatim>\<open>text\<close>.
  The last one is what \<open>generatedText\<close> returns when the first read does not throw.
\<close>
definition levels :: "jsval \<Rightarrow> jsval list" where
  "levels apiResult =
     (let candidates = read_prop apiResult ''candidates'';
          candidate = opt_index0 candidates;
          content = opt_prop candidate ''content'';
          parts = opt_prop content ''parts'';
          part = opt_index0 parts;
          text = opt_prop part ''text''
      in [candidates, candidate, content, parts, part, text])"

section \<open>Requests that differ in \<open>model\<close> only\<close>

text \<open>
  Two bodies are the same except for \<^verbatim>\<open>model\<close> when both are objects whose properties
  other than \<^verbatim>\<open>model\<close> agree, or when they are the same value (a value that is not an
  object holds no \<^verbatim>\<open>model\<close>).
\<close>
fun differ_only_in_model :: "jsval \<Rightarrow> jsval \<Rightarrow> bool" where
  "differ_only_in_model (JObj kvs) (JObj kvs') =
     (\<forall>k \<in> set (map fst kvs @ map fst kvs'). k \<noteq> ''model'' \<longrightarrow> map_of kvs k = map_of kvs' k)"
| "differ_only_in_model b b' = (b = b')"

section \<open>The expected response shape\<close>

text \<open>
  Following the spec's words, not the code: the value at the fixed path, first candidate,
  then \<^verbatim>\<open>content\<close>, then first part, then \<^verbatim>\<open>text\<close>, of an upstream response of the
  expected shape \<^verbatim>\<open>{ candidates: [{ content: { parts: [{ text }] } }] }\<close>. A field is a
  property of an object, the first element is the head of an array, and there is no value
  where the shape is not met.
\<close>

fun spec_field :: "string \<Rightarrow> jsval \<Rightarrow> jsval option" where
  "spec_field k (JObj kvs) = map_of kvs k"
| "spec_field k _ = None"

fun spec_first :: "jsval \<Rightarrow> jsval option" where
  "spec_first (JArr (x # xs)) = Some x"
| "spec_first _ = None"

definition spec_text_at_path :: "jsval \<Rightarrow> jsval option" where
  "spec_text_at_path apiResult =
     (case spec_field ''candidates'' apiResult of None \<Rightarrow> None | Some candidates \<Rightarrow>
      case spec_first candidates of None \<Rightarrow> None | Some candidate \<Rightarrow>
      case spec_field ''content'' candidate of None \<Rightarrow> None | Some content \<Rightarrow>
      case spec_field ''parts'' content of None \<Rightarrow> None | Some parts \<Rightarrow>
      case spec_first parts of None \<Rightarrow> None | Some part \<Rightarrow>
      spec_field ''text'' part)"

section \<open>A process serving invocations\<close>

text \<open>
  What outlives one invocation in the process that hosts the module: \<^verbatim>\<open>process.env\<close> and
  what has gone out on the network so far. The module's own scope holds the constant URL
  only. One invocation reads the credential from the environment, runs the handler against
  the upstream as it behaves at that moment, and leaves its calls in the log; a run is a
  sequence of invocations in one process, each with its own upstream behaviour.
\<close>

record process =
  environment :: "string \<Rightarrow> string option"
  network_log :: "fetch_request list"



section \<open>A stubbed upstream\<close>

text \<open>
  Concrete surroundings for evaluating the handler: an upstream that answers every call
  with the same outcome, a sample TypeError wording, the credential \<^verbatim>\<open>secret\<close>, and a
  well-formed body with the call the handler derives from it.
\<close>

definition stub_fetch :: "exn + api_response \<Rightarrow> fetch_request \<Rightarrow> exn + api_response" where
  "stub_fetch r call = r"

fun plain_wording :: "type_error \<Rightarrow> string" where
  "plain_wording (CannotDestructure v) = ''Cannot destructure request.body''"
| "plain_wording (CannotRead v k) = ''Cannot read property '' @ k"

definition demo_body :: jsval where
  "demo_body = JObj [(''prompt'', JStr ''Summarise''), (''systemInstruction'', JStr ''Be brief''),
                     (''model'', JStr ''gemini-pro'')]"

definition other_model_body :: jsval where
  "other_model_body = JObj [(''model'', JStr ''gemini-ultra''), (''prompt'', JStr ''Summarise''),
                            (''systemInstruction'', JStr ''Be brief'')]"

definition post :: "jsval \<Rightarrow> request" where
  "post b = \<lparr>http_method = ''POST'', body = b\<rparr>"

definition demo_platform :: "exn + api_response \<Rightarrow> platform" where
  "demo_platform r =
     \<lparr>GEMINI_API_KEY = Some ''secret'', fetch = stub_fetch r, type_error_message = plain_wording\<rparr>"

definition demo_call :: fetch_request where
  "demo_call =
     \<lparr>fetch_url = GEMINI_API_URL @ ''?key=secret'', fetch_method = ''POST'',
      fetch_headers = [(''Content-Type'', ''application/json'')],
      fetch_body = payload (JStr ''Summarise'') (JStr ''Be brief'')\<rparr>"

definition candidate_text :: "jsval \<Rightarrow> jsval" where
  "candidate_text t =
     JObj [(''candidates'', JArr [JObj [(''content'', JObj [(''parts'', JArr [JObj [(''text'', t)]])])]])]"

definition two_candidates :: jsval where
  "two_candidates =
     JObj [(''candidates'', JArr [
        JObj [(''content'', JObj [(''parts'', JArr [JObj [(''text'', JStr ''Result text'')],
                                                   JObj [(''text'', JStr ''second part'')]])])],
        JObj [(''content'', JObj [(''parts'', JArr [JObj [(''text'', JStr ''other candidate'')]])])]])]"



section \<open>Evaluation and case analysis\<close>

lemmas demo_defs = demo_body_def post_def demo_platform_def demo_call_def candidate_text_def
  stub_fetch_def

lemmas handler_defs = handler_def try_block_def destructure_def generatedText_def
  opt_prop_def opt_index0_def respond_def ok_def Let_def

text \<open>
  Every outbound call is the one call of line 31: it needs a POST, a non-empty credential
  and a body that can be destructured.
\<close>

lemma calls_made:
  assumes "c \<in> set (calls (handler p request))"
  obtains key where "http_method request = ''POST''" "GEMINI_API_KEY p = Some key" "key \<noteq> []"
    "\<not> nullish (body request)"
    "c = \<lparr>fetch_url = GEMINI_API_URL @ ''?key='' @ key, fetch_method = ''POST'',
          fetch_headers = [(''Content-Type'', ''application/json'')],
          fetch_body = payload (read_prop (body request) ''prompt'')
                         (read_prop (body request) ''systemInstruction'')\<rparr>"
    "calls (handler p request) = [c]"
  using assms
  by (auto simp: handler_def try_block_def destructure_def Let_def
      split: if_splits option.splits sum.splits prod.splits)

lemma demo_calls: "calls (handler (demo_platform r) (post demo_body)) = [demo_call]"
  by (cases r) (simp_all add: demo_defs handler_defs split: sum.splits)

text \<open>The levels against the code's chain and against the expected shape.\<close>

lemma levels_last:
  "last (levels v) = opt_prop (opt_index0 (opt_prop (opt_prop (opt_index0
                  (read_prop v ''candidates'')) ''content'') ''parts'')) ''text''"
  by (simp add: levels_def Let_def)

lemma levels_nullish_last:
  assumes "\<exists>x \<in> set (levels v). nullish x"
  shows "nullish (last (levels v))"
  using assms by (auto simp: levels_def Let_def opt_prop_def opt_index0_def)

lemma nullish_not_truthy: "nullish v \<Longrightarrow> \<not> truthy v"
  by (cases v) simp_all

lemma spec_field_read: "spec_field k v = Some x \<Longrightarrow> \<not> nullish v \<and> opt_prop v k = x \<and> read_prop v k = x"
  by (cases v) (simp_all add: opt_prop_def)

lemma spec_first_index: "spec_first v = Some x \<Longrightarrow> \<not> nullish v \<and> opt_index0 v = x"
  by (cases "(v)" rule: spec_first.cases) (simp_all add: opt_index0_def)

lemma spec_text_at_path_levels:
  assumes "spec_text_at_path v = Some x"
  shows "\<not> nullish v \<and> last (levels v) = x"
  using assms
  by (auto simp: spec_text_at_path_def levels_last split: option.splits
      dest!: spec_field_read spec_first_index)

section \<open>The method gate\<close>

text \<open>
  C5. A request whose method is not POST is answered with status 405 and a body whose only
  field is \<open>error\<close>; nothing else happens: the outcome is the same whatever the
  credential, the upstream and the body are, and no outbound call is attempted.
\<close>

theorem method_gate:
  assumes "http_method request \<noteq> ''POST''"
  shows "handler p request =
           \<lparr>response = \<lparr>sent_status = 405, sent_json = JObj [(''error'', JStr
              ''Method Not Allowed. This endpoint only accepts POST requests.'')]\<rparr>,
            calls = []\<rparr>"
  using assms by (simp add: handler_def respond_def)

theorem method_gate_witness:
  "http_method \<lparr>http_method = ''GET'', body = demo_body\<rparr> \<noteq> ''POST''
   \<and> handler (demo_platform (Inl (Error ''must not be called''))) \<lparr>http_method = ''GET'', body = demo_body\<rparr>
       = \<lparr>response = \<lparr>sent_status = 405, sent_json = JObj [(''error'', JStr
              ''Method Not Allowed. This endpoint only accepts POST requests.'')]\<rparr>,
          calls = []\<rparr>"
  using method_gate [of "\<lparr>http_method = ''GET'', body = demo_body\<rparr>"
      "demo_platform (Inl (Error ''must not be called''))"]
  by simp

section \<open>The credential check\<close>

text \<open>
  C4. For a POST request, when the environment credential is absent (unset, or set to the
  empty string, which \<^verbatim>\<open>!GEMINI_API_KEY\<close> treats alike) the handler answers with status
  500 and the configuration-error payload, whatever the body is, and no outbound call is
  attempted.
\<close>

theorem missing_credential:
  assumes "http_method request = ''POST''"
    and "GEMINI_API_KEY p = None \<or> GEMINI_API_KEY p = Some []"
  shows "handler p request =
           \<lparr>response = \<lparr>sent_status = 500, sent_json = JObj [(''error'', JStr
              ''Server configuration error: GEMINI_API_KEY environment variable is missing.'')]\<rparr>,
            calls = []\<rparr>"
  using assms by (auto simp: handler_def try_block_def respond_def)

theorem missing_credential_witness:
  "http_method (post demo_body) = ''POST''
   \<and> handler ((demo_platform (Inl (Error ''must not be called''))) \<lparr>GEMINI_API_KEY := None\<rparr>)
        (post demo_body)
       = \<lparr>response = \<lparr>sent_status = 500, sent_json = JObj [(''error'', JStr
              ''Server configuration error: GEMINI_API_KEY environment variable is missing.'')]\<rparr>,
          calls = []\<rparr>"
  using missing_credential [of "post demo_body"
      "(demo_platform (Inl (Error ''must not be called''))) \<lparr>GEMINI_API_KEY := None\<rparr>"]
  by (simp add: post_def)

section \<open>The outbound payload\<close>

text \<open>
  C2. Whatever the inbound body is, the payload of every outbound call is exactly
  \<^verbatim>\<open>{ contents: [{ parts: [{ text: prompt }] }], systemInstruction: { parts: [{ text:
  systemInstruction }] } }\<close>, with \<^verbatim>\<open>prompt\<close> and \<^verbatim>\<open>systemInstruction\<close> read from the
  body and no other field; and a POST request with a credential and a body that is neither
  \<^verbatim>\<open>null\<close> nor \<^verbatim>\<open>undefined\<close> makes exactly one such call.
\<close>

theorem outbound_payload:
  "(\<forall>c \<in> set (calls (handler p request)).
      fetch_body c =
        JObj [(''contents'',
                 JArr [JObj [(''parts'', JArr [JObj [(''text'', read_prop (body request) ''prompt'')]])]]),
              (''systemInstruction'',
                 JObj [(''parts'',
                   JArr [JObj [(''text'', read_prop (body request) ''systemInstruction'')]])])])
   \<and> (http_method request = ''POST'' \<and> GEMINI_API_KEY p = Some key \<and> key \<noteq> []
        \<and> \<not> nullish (body request)
      \<longrightarrow> length (calls (handler p request)) = 1)"
proof (intro conjI ballI impI)
  fix c assume "c \<in> set (calls (handler p request))"
  then show "fetch_body c =
        JObj [(''contents'',
                 JArr [JObj [(''parts'', JArr [JObj [(''text'', read_prop (body request) ''prompt'')]])]]),
              (''systemInstruction'',
                 JObj [(''parts'',
                   JArr [JObj [(''text'', read_prop (body request) ''systemInstruction'')]])])]"
    by (rule calls_made) (simp add: payload_def)
next
  assume "http_method request = ''POST'' \<and> GEMINI_API_KEY p = Some key \<and> key \<noteq> []
        \<and> \<not> nullish (body request)"
  then show "length (calls (handler p request)) = 1"
    by (simp add: handler_def try_block_def destructure_def Let_def
        split: sum.splits prod.splits)
qed

theorem outbound_payload_witness:
  "calls (handler (demo_platform (Inl (Error ''socket hang up''))) (post demo_body)) = [demo_call]
   \<and> fetch_body demo_call =
        JObj [(''contents'', JArr [JObj [(''parts'', JArr [JObj [(''text'', JStr ''Summarise'')]])]]),
              (''systemInstruction'', JObj [(''parts'', JArr [JObj [(''text'', JStr ''Be brief'')]])])]
   \<and> length (calls (handler (demo_platform (Inl (Error ''socket hang up''))) (post demo_body))) = 1"
  using outbound_payload [of "demo_platform (Inl (Error ''socket hang up''))" "post demo_body"
      "''secret''"]
  by (simp add: demo_calls) (simp add: demo_defs payload_def)

section \<open>The upstream success path\<close>

text \<open>
  C1. For a POST request whose upstream call returns a success-range status and a parsed
  body that holds a non-empty text at the fixed path (first candidate, \<^verbatim>\<open>content\<close>, first
  part, \<^verbatim>\<open>text\<close>), the handler answers with status 200 and the body
  \<^verbatim>\<open>{ summary: text }\<close> holding that text.
\<close>

theorem success_summary:
  assumes "http_method request = ''POST''"
    and "c \<in> set (calls (handler p request))"
    and "fetch p c = Inr apiResponse"
    and "ok apiResponse"
    and "json apiResponse = Inr apiResult"
    and "spec_text_at_path apiResult = Some (JStr t)"
    and "t \<noteq> []"
  shows "response (handler p request) =
           \<lparr>sent_status = 200, sent_json = JObj [(''summary'', JStr t)]\<rparr>"
proof -
  from assms(6) have g: "generatedText p apiResult = Inr (JStr t)"
    by (auto dest!: spec_text_at_path_levels simp: generatedText_def levels_last)
  from assms(2) obtain key where k: "GEMINI_API_KEY p = Some key" "key \<noteq> []"
    "\<not> nullish (body request)"
    "c = \<lparr>fetch_url = GEMINI_API_URL @ ''?key='' @ key, fetch_method = ''POST'',
          fetch_headers = [(''Content-Type'', ''application/json'')],
          fetch_body = payload (read_prop (body request) ''prompt'')
                         (read_prop (body request) ''systemInstruction'')\<rparr>"
    by (rule calls_made)
  with assms g show ?thesis
    by (simp add: handler_def try_block_def destructure_def Let_def respond_def)
qed

theorem success_summary_witness:
  "http_method (post demo_body) = ''POST''
   \<and> demo_call \<in> set (calls (handler
        (demo_platform (Inr \<lparr>status = 200, json = Inr two_candidates\<rparr>)) (post demo_body)))
   \<and> ok \<lparr>status = 200, json = Inr two_candidates\<rparr>
   \<and> spec_text_at_path two_candidates = Some (JStr ''Result text'')
   \<and> response (handler
        (demo_platform (Inr \<lparr>status = 200, json = Inr two_candidates\<rparr>)) (post demo_body))
       = \<lparr>sent_status = 200, sent_json = JObj [(''summary'', JStr ''Result text'')]\<rparr>"
proof -
  let ?r = "\<lparr>status = 200, json = Inr two_candidates\<rparr>"
  let ?p = "demo_platform (Inr ?r)"
  have m: "http_method (post demo_body) = ''POST''" by (simp add: post_def)
  have c: "demo_call \<in> set (calls (handler ?p (post demo_body)))" by (simp add: demo_calls)
  have f: "fetch ?p demo_call = Inr ?r" by (simp add: demo_platform_def stub_fetch_def)
  have o: "ok ?r" by (simp add: ok_def)
  have j: "json ?r = Inr two_candidates" by simp
  have g: "spec_text_at_path two_candidates = Some (JStr ''Result text'')"
    by (simp add: spec_text_at_path_def two_candidates_def)
  have t: "''Result text'' \<noteq> []" by simp
  from success_summary [OF m c f o j g t] m c o g show ?thesis by simp
qed

text \<open>
  C6, for parsed values other than \<^verbatim>\<open>null\<close> and for falsy values at the path. For a POST
  request whose upstream call returns a success-range status and a parsed body other than
  \<^verbatim>\<open>null\<close>, when the value at the end of the extraction path is missing, \<^verbatim>\<open>null\<close>, the
  empty text, \<^verbatim>\<open>false\<close> or \<^verbatim>\<open>0\<close>, the handler answers with status 500 and the
  empty-or-invalid-response error.
\<close>

theorem empty_result:
  assumes "http_method request = ''POST''"
    and "c \<in> set (calls (handler p request))"
    and "fetch p c = Inr apiResponse"
    and "ok apiResponse"
    and "json apiResponse = Inr apiResult"
    and "\<not> nullish apiResult"
    and "last (levels apiResult) = JUndefined \<or> last (levels apiResult) = JNull
         \<or> last (levels apiResult) = JStr [] \<or> last (levels apiResult) = JBool False
         \<or> last (levels apiResult) = JNum 0"
  shows "response (handler p request) =
           \<lparr>sent_status = 500, sent_json = JObj [(''error'', JStr
              ''Gemini API returned an empty or invalid response.'')]\<rparr>"
proof -
  from assms(2) obtain key where "GEMINI_API_KEY p = Some key" "key \<noteq> []"
    "\<not> nullish (body request)"
    "c = \<lparr>fetch_url = GEMINI_API_URL @ ''?key='' @ key, fetch_method = ''POST'',
          fetch_headers = [(''Content-Type'', ''application/json'')],
          fetch_body = payload (read_prop (body request) ''prompt'')
                         (read_prop (body request) ''systemInstruction'')\<rparr>"
    by (rule calls_made)
  moreover from assms(7) have "\<not> truthy (last (levels apiResult))" by auto
  moreover from assms(6) have "generatedText p apiResult = Inr (last (levels apiResult))"
    by (simp add: generatedText_def levels_last)
  ultimately show ?thesis using assms(1,3-5)
    by (simp add: handler_def try_block_def destructure_def Let_def respond_def)
qed

theorem empty_result_witness:
  "http_method (post demo_body) = ''POST''
   \<and> demo_call \<in> set (calls (handler
        (demo_platform (Inr \<lparr>status = 200, json = Inr (JObj [])\<rparr>)) (post demo_body)))
   \<and> ok \<lparr>status = 200, json = Inr (JObj [])\<rparr>
   \<and> \<not> nullish (JObj [])
   \<and> last (levels (JObj [])) = JUndefined
   \<and> response (handler (demo_platform (Inr \<lparr>status = 200, json = Inr (JObj [])\<rparr>))
        (post demo_body))
       = \<lparr>sent_status = 500, sent_json = JObj [(''error'', JStr
              ''Gemini API returned an empty or invalid response.'')]\<rparr>"
proof -
  let ?r = "\<lparr>status = 200, json = Inr (JObj [])\<rparr>"
  let ?p = "demo_platform (Inr ?r)"
  have m: "http_method (post demo_body) = ''POST''" by (simp add: post_def)
  have c: "demo_call \<in> set (calls (handler ?p (post demo_body)))" by (simp add: demo_calls)
  have f: "fetch ?p demo_call = Inr ?r" by (simp add: demo_platform_def stub_fetch_def)
  have o: "ok ?r" by (simp add: ok_def)
  have j: "json ?r = Inr (JObj [])" by simp
  have n: "\<not> nullish (JObj [])" by simp
  have l: "last (levels (JObj [])) = JUndefined"
    by (simp add: levels_def opt_prop_def opt_index0_def)
  from l have t: "last (levels (JObj [])) = JUndefined \<or> last (levels (JObj [])) = JNull
         \<or> last (levels (JObj [])) = JStr [] \<or> last (levels (JObj [])) = JBool False
         \<or> last (levels (JObj [])) = JNum 0" by simp
  from empty_result [OF m c f o j n t] m c o n l show ?thesis by simp
qed

text \<open>
  The claim as stated fails in two places. A parsed body \<^verbatim>\<open>null\<close> holds no text at the
  path, yet the read of \<^verbatim>\<open>candidates\<close> throws and the answer is the generic internal
  error. And a value at the path that is present but not a text, such as the number 7, is
  truthy, so the answer is 200 with that value as the summary.
\<close>

theorem empty_result_counterexample:
  "ok \<lparr>status = 200, json = Inr JNull\<rparr>
   \<and> spec_text_at_path JNull = None
   \<and> response (handler (demo_platform (Inr \<lparr>status = 200, json = Inr JNull\<rparr>)) (post demo_body))
       = \<lparr>sent_status = 500,
          sent_json = JObj [(''error'', JStr ''Internal Server Error during proxy processing.''),
                            (''details'', JStr ''Cannot read property candidates'')]\<rparr>
   \<and> ok \<lparr>status = 200, json = Inr (candidate_text (JNum 7))\<rparr>
   \<and> spec_text_at_path (candidate_text (JNum 7)) = Some (JNum 7)
   \<and> response (handler (demo_platform (Inr \<lparr>status = 200, json = Inr (candidate_text (JNum 7))\<rparr>))
        (post demo_body))
       = \<lparr>sent_status = 200, sent_json = JObj [(''summary'', JNum 7)]\<rparr>"
  by (simp add: demo_defs handler_defs payload_def spec_text_at_path_def)

section \<open>The extraction path on arbitrary JSON\<close>

text \<open>
  C10, for values other than \<^verbatim>\<open>null\<close>. For every parsed upstream value other than
  \<^verbatim>\<open>null\<close>, returned with a
  success-range status, the extraction raises no exception and yields the last level; the
  handler answers 200 with the summary when that value is truthy and otherwise takes the
  empty-or-invalid-response branch; in particular it takes that branch whenever
  \<^verbatim>\<open>candidates\<close>, the first candidate, \<^verbatim>\<open>content\<close>, \<^verbatim>\<open>parts\<close>, the first part or
  \<^verbatim>\<open>text\<close> is missing or \<^verbatim>\<open>null\<close>.
\<close>

theorem extraction_total_unless_null:
  assumes "http_method request = ''POST''"
    and "c \<in> set (calls (handler p request))"
    and "fetch p c = Inr apiResponse"
    and "ok apiResponse"
    and "json apiResponse = Inr apiResult"
    and "\<not> nullish apiResult"
  shows "generatedText p apiResult = Inr (last (levels apiResult))
         \<and> response (handler p request) =
             (if truthy (last (levels apiResult))
              then \<lparr>sent_status = 200, sent_json = JObj [(''summary'', last (levels apiResult))]\<rparr>
              else \<lparr>sent_status = 500, sent_json = JObj [(''error'', JStr
                      ''Gemini API returned an empty or invalid response.'')]\<rparr>)
         \<and> ((\<exists>x \<in> set (levels apiResult). nullish x) \<longrightarrow>
              response (handler p request) =
                \<lparr>sent_status = 500, sent_json = JObj [(''error'', JStr
                    ''Gemini API returned an empty or invalid response.'')]\<rparr>)"
proof -
  have g: "generatedText p apiResult = Inr (last (levels apiResult))"
    using assms(6) by (simp add: generatedText_def levels_last)
  from assms(2) obtain key where "GEMINI_API_KEY p = Some key" "key \<noteq> []"
    "\<not> nullish (body request)"
    "c = \<lparr>fetch_url = GEMINI_API_URL @ ''?key='' @ key, fetch_method = ''POST'',
          fetch_headers = [(''Content-Type'', ''application/json'')],
          fetch_body = payload (read_prop (body request) ''prompt'')
                         (read_prop (body request) ''systemInstruction'')\<rparr>"
    by (rule calls_made)
  with assms(1,3-5) g
  have r: "response (handler p request) =
             (if truthy (last (levels apiResult))
              then \<lparr>sent_status = 200, sent_json = JObj [(''summary'', last (levels apiResult))]\<rparr>
              else \<lparr>sent_status = 500, sent_json = JObj [(''error'', JStr
                      ''Gemini API returned an empty or invalid response.'')]\<rparr>)"
    by (simp add: handler_def try_block_def destructure_def Let_def respond_def)
  have "\<not> truthy (last (levels apiResult))" if "\<exists>x \<in> set (levels apiResult). nullish x"
    using that by (intro nullish_not_truthy levels_nullish_last)
  with g r show ?thesis by simp
qed

theorem extraction_total_unless_null_witness:
  "http_method (post demo_body) = ''POST''
   \<and> demo_call \<in> set (calls (handler
        (demo_platform (Inr \<lparr>status = 200, json = Inr (JObj [(''candidates'', JArr [])])\<rparr>))
        (post demo_body)))
   \<and> ok \<lparr>status = 200, json = Inr (JObj [(''candidates'', JArr [])])\<rparr>
   \<and> \<not> nullish (JObj [(''candidates'', JArr [])])
   \<and> levels (JObj [(''candidates'', JArr [])])
       = [JArr [], JUndefined, JUndefined, JUndefined, JUndefined, JUndefined]
   \<and> generatedText
        (demo_platform (Inr \<lparr>status = 200, json = Inr (JObj [(''candidates'', JArr [])])\<rparr>))
        (JObj [(''candidates'', JArr [])]) = Inr JUndefined
   \<and> response (handler
        (demo_platform (Inr \<lparr>status = 200, json = Inr (JObj [(''candidates'', JArr [])])\<rparr>))
        (post demo_body))
       = \<lparr>sent_status = 500, sent_json = JObj [(''error'', JStr
              ''Gemini API returned an empty or invalid response.'')]\<rparr>"
proof -
  let ?v = "JObj [(''candidates'', JArr [])]"
  let ?r = "\<lparr>status = 200, json = Inr ?v\<rparr>"
  let ?p = "demo_platform (Inr ?r)"
  have m: "http_method (post demo_body) = ''POST''" by (simp add: post_def)
  have c: "demo_call \<in> set (calls (handler ?p (post demo_body)))" by (simp add: demo_calls)
  have f: "fetch ?p demo_call = Inr ?r" by (simp add: demo_platform_def stub_fetch_def)
  have o: "ok ?r" by (simp add: ok_def)
  have j: "json ?r = Inr ?v" by simp
  have n: "\<not> nullish ?v" by simp
  have l: "levels ?v = [JArr [], JUndefined, JUndefined, JUndefined, JUndefined, JUndefined]"
    by (simp add: levels_def opt_prop_def opt_index0_def)
  from extraction_total_unless_null [OF m c f o j n] m c o n l show ?thesis by simp
qed

text \<open>
  The claim as stated fails at the JSON value \<^verbatim>\<open>null\<close>: the read of \<^verbatim>\<open>candidates\<close> is
  not an optional one, so it throws, and the handler answers through the \<^verbatim>\<open>catch\<close> branch.
\<close>

theorem extraction_null_counterexample:
  "ok \<lparr>status = 200, json = Inr JNull\<rparr>
   \<and> generatedText (demo_platform (Inr \<lparr>status = 200, json = Inr JNull\<rparr>)) JNull
       = Inl (Error ''Cannot read property candidates'')
   \<and> handler (demo_platform (Inr \<lparr>status = 200, json = Inr JNull\<rparr>)) (post demo_body)
       = \<lparr>response = \<lparr>sent_status = 500,
             sent_json = JObj [(''error'', JStr ''Internal Server Error during proxy processing.''),
                               (''details'', JStr ''Cannot read property candidates'')]\<rparr>,
          calls = [demo_call]\<rparr>"
  by (simp add: demo_defs handler_defs payload_def)

section \<open>The upstream failure path\<close>

text \<open>
  C3, for error bodies that parse. For a POST request whose upstream call returns a non-success status
  \<open>S\<close> and a body that parses as JSON, the handler answers with the same status \<open>S\<close>
  and a payload holding a message that names \<open>S\<close> and the parsed upstream body under
  \<^verbatim>\<open>details\<close>.
\<close>

theorem upstream_failure_forwarded:
  assumes "http_method request = ''POST''"
    and "c \<in> set (calls (handler p request))"
    and "fetch p c = Inr apiResponse"
    and "\<not> ok apiResponse"
    and "json apiResponse = Inr apiResult"
  shows "response (handler p request) =
           \<lparr>sent_status = status apiResponse,
            sent_json = JObj [(''error'', JStr (''Gemini API call failed with status ''
                                        @ string_of_nat (status apiResponse))),
                              (''details'', apiResult)]\<rparr>"
proof -
  from assms(2) obtain key where "GEMINI_API_KEY p = Some key" "key \<noteq> []"
    "\<not> nullish (body request)"
    "c = \<lparr>fetch_url = GEMINI_API_URL @ ''?key='' @ key, fetch_method = ''POST'',
          fetch_headers = [(''Content-Type'', ''application/json'')],
          fetch_body = payload (read_prop (body request) ''prompt'')
                         (read_prop (body request) ''systemInstruction'')\<rparr>"
    by (rule calls_made)
  with assms show ?thesis
    by (simp add: handler_def try_block_def destructure_def Let_def respond_def)
qed

theorem upstream_failure_forwarded_witness:
  "http_method (post demo_body) = ''POST''
   \<and> demo_call \<in> set (calls (handler
        (demo_platform (Inr \<lparr>status = 429, json = Inr (JObj [(''error'', JStr ''rate limited'')])\<rparr>))
        (post demo_body)))
   \<and> \<not> ok \<lparr>status = 429, json = Inr (JObj [(''error'', JStr ''rate limited'')])\<rparr>
   \<and> response (handler
        (demo_platform (Inr \<lparr>status = 429, json = Inr (JObj [(''error'', JStr ''rate limited'')])\<rparr>))
        (post demo_body))
       = \<lparr>sent_status = 429,
          sent_json = JObj [(''error'', JStr ''Gemini API call failed with status 429''),
                            (''details'', JObj [(''error'', JStr ''rate limited'')])]\<rparr>"
proof -
  let ?r = "\<lparr>status = 429, json = Inr (JObj [(''error'', JStr ''rate limited'')])\<rparr>"
  let ?p = "demo_platform (Inr ?r)"
  have m: "http_method (post demo_body) = ''POST''" by (simp add: post_def)
  have c: "demo_call \<in> set (calls (handler ?p (post demo_body)))" by (simp add: demo_calls)
  have f: "fetch ?p demo_call = Inr ?r" by (simp add: demo_platform_def stub_fetch_def)
  have o: "\<not> ok ?r" by (simp add: ok_def)
  have j: "json ?r = Inr (JObj [(''error'', JStr ''rate limited'')])" by simp
  have s: "string_of_nat 429 = ''429''" by (simp add: string_of_nat.simps digit_def)
  from upstream_failure_forwarded [OF m c f o j] m c o s show ?thesis by simp
qed

text \<open>
  The claim as stated fails when the body of the error response is not JSON: the body is
  parsed before the status is looked at, the parse rejects, and the handler answers 500
  through the \<^verbatim>\<open>catch\<close> branch, not with the upstream's 502.
\<close>

theorem upstream_failure_counterexample:
  "fetch (demo_platform (Inr \<lparr>status = 502, json = Inl (Error ''Unexpected token <'')\<rparr>)) demo_call
     = Inr \<lparr>status = 502, json = Inl (Error ''Unexpected token <'')\<rparr>
   \<and> \<not> ok \<lparr>status = 502, json = Inl (Error ''Unexpected token <'')\<rparr>
   \<and> handler (demo_platform (Inr \<lparr>status = 502, json = Inl (Error ''Unexpected token <'')\<rparr>))
        (post demo_body)
       = \<lparr>response = \<lparr>sent_status = 500,
             sent_json = JObj [(''error'', JStr ''Internal Server Error during proxy processing.''),
                               (''details'', JStr ''Unexpected token <'')]\<rparr>,
          calls = [demo_call]\<rparr>"
  by (simp add: demo_defs handler_defs payload_def)

section \<open>The exceptional path\<close>

text \<open>
  Where the body of \<^verbatim>\<open>try\<close> throws: destructuring a body that is \<^verbatim>\<open>null\<close> or
  \<^verbatim>\<open>undefined\<close>, a rejected \<^verbatim>\<open>fetch\<close>, a rejected \<^verbatim>\<open>.json()\<close>, and the read of
  \<^verbatim>\<open>candidates\<close> from \<^verbatim>\<open>null\<close>; nowhere else.
\<close>

lemma try_block_raises:
  "try_block p request = (cs, Inl e) \<longleftrightarrow>
     (\<exists>key. GEMINI_API_KEY p = Some key \<and> key \<noteq> [] \<and>
        (if nullish (body request)
         then cs = [] \<and> e = Error (type_error_message p (CannotDestructure (body request)))
         else cs = [\<lparr>fetch_url = GEMINI_API_URL @ ''?key='' @ key, fetch_method = ''POST'',
                      fetch_headers = [(''Content-Type'', ''application/json'')],
                      fetch_body = payload (read_prop (body request) ''prompt'')
                                     (read_prop (body request) ''systemInstruction'')\<rparr>] \<and>
              (fetch p (hd cs) = Inl e \<or>
               (\<exists>r. fetch p (hd cs) = Inr r \<and>
                  (json r = Inl e \<or>
                   (\<exists>v. json r = Inr v \<and> ok r \<and> nullish v \<and>
                      e = Error (type_error_message p (CannotRead v ''candidates''))))))))"
  by (auto simp: try_block_def destructure_def generatedText_def Let_def
      split: option.splits sum.splits if_splits)

text \<open>
  C7. For a POST request with a credential, each exception of the body of \<^verbatim>\<open>try\<close> is
  answered with status 500, the generic internal-error message and the exception's message
  under \<^verbatim>\<open>details\<close>: the TypeError of destructuring a body that is \<^verbatim>\<open>null\<close> or
  \<^verbatim>\<open>undefined\<close> (before any call), a rejected \<^verbatim>\<open>fetch\<close> (network failure), a rejected
  \<^verbatim>\<open>.json()\<close> (JSON parse failure, whatever the status), and the TypeError of reading
  \<^verbatim>\<open>candidates\<close> from a parsed \<^verbatim>\<open>null\<close>. By \<open>try_block_raises\<close> these are all the
  exceptions there are, so the handler answers every request.
\<close>

theorem exceptions_caught:
  assumes "http_method request = ''POST''"
    and "GEMINI_API_KEY p = Some key"
    and "key \<noteq> []"
    and "c = \<lparr>fetch_url = GEMINI_API_URL @ ''?key='' @ key, fetch_method = ''POST'',
              fetch_headers = [(''Content-Type'', ''application/json'')],
              fetch_body = payload (read_prop (body request) ''prompt'')
                             (read_prop (body request) ''systemInstruction'')\<rparr>"
  shows "(nullish (body request) \<longrightarrow>
            handler p request =
              \<lparr>response = \<lparr>sent_status = 500, sent_json = JObj
                   [(''error'', JStr ''Internal Server Error during proxy processing.''),
                    (''details'', JStr (type_error_message p (CannotDestructure (body request))))]\<rparr>,
               calls = []\<rparr>)
       \<and> (\<not> nullish (body request) \<and> fetch p c = Inl e \<longrightarrow>
            handler p request =
              \<lparr>response = \<lparr>sent_status = 500, sent_json = JObj
                   [(''error'', JStr ''Internal Server Error during proxy processing.''),
                    (''details'', JStr (message e))]\<rparr>,
               calls = [c]\<rparr>)
       \<and> (\<not> nullish (body request) \<and> fetch p c = Inr apiResponse \<and> json apiResponse = Inl e \<longrightarrow>
            handler p request =
              \<lparr>response = \<lparr>sent_status = 500, sent_json = JObj
                   [(''error'', JStr ''Internal Server Error during proxy processing.''),
                    (''details'', JStr (message e))]\<rparr>,
               calls = [c]\<rparr>)
       \<and> (\<not> nullish (body request) \<and> fetch p c = Inr apiResponse \<and> ok apiResponse
            \<and> json apiResponse = Inr apiResult \<and> nullish apiResult \<longrightarrow>
            handler p request =
              \<lparr>response = \<lparr>sent_status = 500, sent_json = JObj
                   [(''error'', JStr ''Internal Server Error during proxy processing.''),
                    (''details'', JStr (type_error_message p (CannotRead apiResult ''candidates'')))]\<rparr>,
               calls = [c]\<rparr>)"
  using assms
  by (simp add: handler_def try_block_def destructure_def generatedText_def Let_def respond_def)

theorem exceptions_caught_witness:
  "handler (demo_platform (Inl (Error ''fetch failed''))) (post JNull)
     = \<lparr>response = \<lparr>sent_status = 500, sent_json = JObj
          [(''error'', JStr ''Internal Server Error during proxy processing.''),
           (''details'', JStr ''Cannot destructure request.body'')]\<rparr>,
        calls = []\<rparr>
   \<and> handler (demo_platform (Inl (Error ''fetch failed''))) (post demo_body)
     = \<lparr>response = \<lparr>sent_status = 500, sent_json = JObj
          [(''error'', JStr ''Internal Server Error during proxy processing.''),
           (''details'', JStr ''fetch failed'')]\<rparr>,
        calls = [demo_call]\<rparr>
   \<and> handler (demo_platform (Inr \<lparr>status = 200, json = Inl (Error ''Unexpected end of JSON input'')\<rparr>))
        (post demo_body)
     = \<lparr>response = \<lparr>sent_status = 500, sent_json = JObj
          [(''error'', JStr ''Internal Server Error during proxy processing.''),
           (''details'', JStr ''Unexpected end of JSON input'')]\<rparr>,
        calls = [demo_call]\<rparr>
   \<and> handler (demo_platform (Inr \<lparr>status = 200, json = Inr JNull\<rparr>)) (post demo_body)
     = \<lparr>response = \<lparr>sent_status = 500, sent_json = JObj
          [(''error'', JStr ''Internal Server Error during proxy processing.''),
           (''details'', JStr ''Cannot read property candidates'')]\<rparr>,
        calls = [demo_call]\<rparr>"
proof -
  let ?null = "\<lparr>status = 200, json = Inr JNull\<rparr>"
  let ?bad = "\<lparr>status = 200, json = Inl (Error ''Unexpected end of JSON input'')\<rparr>"
  have d: "demo_call =
      \<lparr>fetch_url = GEMINI_API_URL @ ''?key='' @ ''secret'', fetch_method = ''POST'',
       fetch_headers = [(''Content-Type'', ''application/json'')],
       fetch_body = payload (read_prop (body (post demo_body)) ''prompt'')
                      (read_prop (body (post demo_body)) ''systemInstruction'')\<rparr>"
    by (simp add: demo_call_def post_def demo_body_def)
  have 1: "handler (demo_platform (Inl (Error ''fetch failed''))) (post JNull)
     = \<lparr>response = \<lparr>sent_status = 500, sent_json = JObj
          [(''error'', JStr ''Internal Server Error during proxy processing.''),
           (''details'', JStr ''Cannot destructure request.body'')]\<rparr>,
        calls = []\<rparr>"
    using exceptions_caught [where request = "post JNull"
        and p = "demo_platform (Inl (Error ''fetch failed''))" and key = "''secret''"
        and e = "Error ''fetch failed''" and apiResponse = ?null and apiResult = JNull,
        OF _ _ _ refl]
    by (simp add: post_def demo_platform_def)
  have 2: "handler (demo_platform (Inl (Error ''fetch failed''))) (post demo_body)
     = \<lparr>response = \<lparr>sent_status = 500, sent_json = JObj
          [(''error'', JStr ''Internal Server Error during proxy processing.''),
           (''details'', JStr ''fetch failed'')]\<rparr>,
        calls = [demo_call]\<rparr>"
    using exceptions_caught [where request = "post demo_body"
        and p = "demo_platform (Inl (Error ''fetch failed''))" and key = "''secret''"
        and c = demo_call
        and e = "Error ''fetch failed''" and apiResponse = ?null and apiResult = JNull,
        OF _ _ _ d]
    by (simp add: post_def demo_platform_def demo_body_def stub_fetch_def)
  have 3: "handler (demo_platform (Inr ?bad)) (post demo_body)
     = \<lparr>response = \<lparr>sent_status = 500, sent_json = JObj
          [(''error'', JStr ''Internal Server Error during proxy processing.''),
           (''details'', JStr ''Unexpected end of JSON input'')]\<rparr>,
        calls = [demo_call]\<rparr>"
    using exceptions_caught [where request = "post demo_body"
        and p = "demo_platform (Inr ?bad)" and key = "''secret''" and c = demo_call
        and e = "Error ''Unexpected end of JSON input''" and apiResponse = ?bad
        and apiResult = JNull,
        OF _ _ _ d]
    by (simp add: post_def demo_platform_def demo_body_def stub_fetch_def)
  have 4: "handler (demo_platform (Inr ?null)) (post demo_body)
     = \<lparr>response = \<lparr>sent_status = 500, sent_json = JObj
          [(''error'', JStr ''Internal Server Error during proxy processing.''),
           (''details'', JStr ''Cannot read property candidates'')]\<rparr>,
        calls = [demo_call]\<rparr>"
    using exceptions_caught [where request = "post demo_body"
        and p = "demo_platform (Inr ?null)" and key = "''secret''" and c = demo_call
        and e = "Error ''fetch failed''" and apiResponse = ?null and apiResult = JNull,
        OF _ _ _ d]
    by (simp add: post_def demo_platform_def demo_body_def stub_fetch_def ok_def)
  from 1 2 3 4 show ?thesis by simp
qed

section \<open>The unused \<open>model\<close> field\<close>

lemma differ_only_in_model_nullish:
  "differ_only_in_model b b' \<Longrightarrow> nullish b = nullish b'"
  by (cases b; cases b') simp_all

lemma map_of_agree:
  assumes "\<forall>k \<in> set (map fst kvs @ map fst kvs'). k \<noteq> m \<longrightarrow> map_of kvs k = map_of kvs' k"
    and "k \<noteq> m"
  shows "map_of kvs k = map_of kvs' k"
proof (cases "k \<in> fst ` set kvs \<union> fst ` set kvs'")
  case True
  with assms show ?thesis by auto
next
  case False
  then have "map_of kvs k = None" "map_of kvs' k = None"
    by (simp_all add: map_of_eq_None_iff)
  then show ?thesis by simp
qed

lemma differ_only_in_model_read:
  assumes "differ_only_in_model b b'" and "k \<noteq> ''model''"
  shows "read_prop b k = read_prop b' k"
proof (cases b)
  case (JObj kvs)
  show ?thesis
  proof (cases b')
    case (JObj kvs')
    with \<open>b = JObj kvs\<close> assms(1)
    have "\<forall>k \<in> set (map fst kvs @ map fst kvs'). k \<noteq> ''model'' \<longrightarrow> map_of kvs k = map_of kvs' k"
      by simp
    from map_of_agree [OF this assms(2)] \<open>b = JObj kvs\<close> JObj show ?thesis by simp
  qed (use \<open>b = JObj kvs\<close> assms(1) in simp_all)
qed (use assms(1) in \<open>cases b'; simp\<close>)+

lemma differ_only_in_model_try_block:
  assumes "differ_only_in_model (body request) (body request')"
  shows "try_block p request = try_block p request'"
proof -
  have n: "nullish (body request) = nullish (body request')"
    using assms by (rule differ_only_in_model_nullish)
  have a: "read_prop (body request) ''prompt'' = read_prop (body request') ''prompt''"
    using assms by (rule differ_only_in_model_read) simp
  have b: "read_prop (body request) ''systemInstruction''
             = read_prop (body request') ''systemInstruction''"
    using assms by (rule differ_only_in_model_read) simp
  have "nullish (body request) \<Longrightarrow> body request = body request'"
    using assms by (cases "body request"; cases "body request'") simp_all
  with n a b show ?thesis
    by (simp add: try_block_def destructure_def Let_def split: option.splits)
qed

text \<open>
  C8. Two requests with the same method whose bodies are the same except for \<^verbatim>\<open>model\<close>
  have the same outcome: the same outbound calls and the same response; and every outbound
  call goes to the fixed endpoint, with the credential as its only query parameter.
\<close>

theorem model_ignored:
  assumes "http_method request = http_method request'"
    and "differ_only_in_model (body request) (body request')"
  shows "handler p request = handler p request'
         \<and> (\<forall>c \<in> set (calls (handler p request)).
               \<exists>key. GEMINI_API_KEY p = Some key \<and> fetch_url c = GEMINI_API_URL @ ''?key='' @ key)"
proof
  from assms show "handler p request = handler p request'"
    by (simp add: handler_def differ_only_in_model_try_block [OF assms(2)])
next
  show "\<forall>c \<in> set (calls (handler p request)).
          \<exists>key. GEMINI_API_KEY p = Some key \<and> fetch_url c = GEMINI_API_URL @ ''?key='' @ key"
  proof
    fix c assume "c \<in> set (calls (handler p request))"
    then show "\<exists>key. GEMINI_API_KEY p = Some key \<and> fetch_url c = GEMINI_API_URL @ ''?key='' @ key"
      by (rule calls_made) simp
  qed
qed

theorem model_ignored_witness:
  "http_method (post demo_body) = http_method (post other_model_body)
   \<and> differ_only_in_model (body (post demo_body)) (body (post other_model_body))
   \<and> read_prop demo_body ''model'' \<noteq> read_prop other_model_body ''model''
   \<and> handler (demo_platform (Inr \<lparr>status = 200, json = Inr (candidate_text (JStr ''ok''))\<rparr>))
        (post demo_body)
       = handler (demo_platform (Inr \<lparr>status = 200, json = Inr (candidate_text (JStr ''ok''))\<rparr>))
        (post other_model_body)
   \<and> calls (handler (demo_platform (Inr \<lparr>status = 200, json = Inr (candidate_text (JStr ''ok''))\<rparr>))
        (post other_model_body)) = [demo_call]
   \<and> fetch_url demo_call = GEMINI_API_URL @ ''?key=secret''"
proof -
  let ?p = "demo_platform (Inr \<lparr>status = 200, json = Inr (candidate_text (JStr ''ok''))\<rparr>)"
  have m: "http_method (post demo_body) = http_method (post other_model_body)" by (simp add: post_def)
  have d: "differ_only_in_model (body (post demo_body)) (body (post other_model_body))"
    by (simp add: post_def demo_body_def other_model_body_def)
  have r: "read_prop demo_body ''model'' \<noteq> read_prop other_model_body ''model''"
    by (simp add: demo_body_def other_model_body_def)
  have c: "calls (handler ?p (post other_model_body)) = [demo_call]"
    by (simp add: demo_defs other_model_body_def handler_defs payload_def)
  have u: "fetch_url demo_call = GEMINI_API_URL @ ''?key=secret''" by (simp add: demo_call_def)
  from model_ignored [OF m d, of ?p] m d r c u show ?thesis by simp
qed

section \<open>Statelessness\<close>






end
